theory Spec2Isabelle
  imports Main
begin

section \<open>JavaScript values used by the extension\<close>

text \<open>
  A JavaScript string is a sequence of UTF-16 code units: \<open>s.length\<close> is the length of
  the list, \<open>s.slice(0, n)\<close> is \<open>take n\<close>, \<open>s + t\<close> is \<open>s @ t\<close>.  String literals of
  the source are written \<open>lit ''...''\<close>.
\<close>

type_synonym jsstring = "nat list"

definition lit :: "string \<Rightarrow> jsstring" where
  "lit s = map of_char s"

text \<open>Truthiness of a value that is a string, \<open>undefined\<close> or \<open>null\<close>.\<close>

definition truthy :: "jsstring option \<Rightarrow> bool" where
  "truthy v = (case v of None \<Rightarrow> False | Some s \<Rightarrow> s \<noteq> [])"

text \<open>\<open>a || b\<close> for a string-or-absent \<open>a\<close> and a string \<open>b\<close>.\<close>

definition or_else :: "jsstring option \<Rightarrow> jsstring \<Rightarrow> jsstring" where
  "or_else v d = (case v of None \<Rightarrow> d | Some s \<Rightarrow> if s \<noteq> [] then s else d)"

text \<open>Decimal rendering of an integer inside a template literal.\<close>

fun digits :: "nat \<Rightarrow> jsstring" where
  "digits n = (if n < 10 then [48 + n] else digits (n div 10) @ [48 + n mod 10])"

declare digits.simps [simp del]

definition show_int :: "int \<Rightarrow> jsstring" where
  "show_int i = (if i < 0 then 45 # digits (nat (- i)) else digits (nat i))"

text \<open>\<open>s.indexOf(p) !== -1\<close>.\<close>

fun starts_with :: "jsstring \<Rightarrow> jsstring \<Rightarrow> bool" where
  "starts_with s [] = True"
| "starts_with [] (p # ps) = False"
| "starts_with (c # cs) (p # ps) = (c = p \<and> starts_with cs ps)"

fun includes_str :: "jsstring \<Rightarrow> jsstring \<Rightarrow> bool" where
  "includes_str [] p = starts_with [] p"
| "includes_str (c # cs) p = (starts_with (c # cs) p \<or> includes_str cs p)"

text \<open>
  White space as \<open>String.prototype.trim\<close> and the regular expression class \<open>\s\<close> see it:
  the ECMAScript WhiteSpace and LineTerminator code units.
\<close>

definition is_space :: "nat \<Rightarrow> bool" where
  "is_space c = (c \<in> {9, 10, 11, 12, 13, 32, 160, 5760, 8232, 8233, 8239, 8287, 12288, 65279}
     \<or> (8192 \<le> c \<and> c \<le> 8202))"

definition trim :: "jsstring \<Rightarrow> jsstring" where
  "trim s = rev (dropWhile is_space (rev (dropWhile is_space s)))"

section \<open>The usage-metered request gate (background.js)\<close>

text \<open>
  \<open>CONFIG\<close> as the service worker reads it: \<open>FREE_TIER_LIMIT\<close> (100 when the
  configuration gives no number) and \<open>DEFAULT_FREE_API_KEY\<close> (the empty string when the
  configuration gives none).
\<close>

record config =
  FREE_TIER_LIMIT :: int
  DEFAULT_FREE_API_KEY :: jsstring

text \<open>
  The three keys of \<open>chrome.storage.sync\<close>.  \<open>freeTooltipsUsed\<close> is \<open>None\<close> when the
  key is absent or holds no finite number.
\<close>

record sync_storage =
  llmApiKey :: "jsstring option"
  freeTooltipsUsed :: "int option"
  subscriptionStatus :: "jsstring option"

record usage_info =
  plan :: jsstring
  freeTierLimit :: int
  freeTooltipsRemaining :: int
  info_freeTooltipsUsed :: int

text \<open>The object \<open>resolveUsageAndApiKey\<close> returns; an absent property is \<open>None\<close>.\<close>

record resolution =
  res_apiKey :: "jsstring option"
  res_error :: "jsstring option"
  res_requiresUpgrade :: "bool option"
  res_usageInfo :: usage_info

definition summarizeText :: jsstring where
  "summarizeText = lit ''summarizeText''"

definition ocrImage :: jsstring where
  "ocrImage = lit ''ocrImage''"

definition paid :: jsstring where
  "paid = lit ''paid''"

definition subscription_active_msg :: jsstring where
  "subscription_active_msg =
     lit ''Subscription active. Please add your personal API key in the popup to continue.''"

definition limit_reached_msg :: "int \<Rightarrow> jsstring" where
  "limit_reached_msg n =
     lit ''Free tier limit of '' @ show_int n
       @ lit '' tooltips reached. Sign in with Google to upgrade for $3/month.''"

definition free_tier_unavailable_msg :: jsstring where
  "free_tier_unavailable_msg =
     lit ''Free tier unavailable. Configure a developer-managed API key locally to enable the first 100 tooltips.''"

text \<open>
  \<open>resolveUsageAndApiKey(action)\<close> on the items \<open>data\<close> that \<open>storageSyncGet\<close> delivered.
  The result is the returned object and the storage after the call: only the last branch
  writes (\<open>storageSyncSet({ freeTooltipsUsed: newUsedCount })\<close>), before it returns.
\<close>

definition resolveUsageAndApiKey ::
  "config \<Rightarrow> jsstring \<Rightarrow> sync_storage \<Rightarrow> resolution \<times> sync_storage" where
  "resolveUsageAndApiKey cfg action data =
    (let status = or_else (subscriptionStatus data) (lit ''free'');
         used = (case freeTooltipsUsed data of Some n \<Rightarrow> n | None \<Rightarrow> 0);
         remainingBeforeUse = max (FREE_TIER_LIMIT cfg - used) 0;
         usageInfoBase = \<lparr>plan = status, freeTierLimit = FREE_TIER_LIMIT cfg,
            freeTooltipsRemaining = remainingBeforeUse, info_freeTooltipsUsed = used\<rparr>
     in if truthy (llmApiKey data) then
          (\<lparr>res_apiKey = llmApiKey data, res_error = None, res_requiresUpgrade = None,
            res_usageInfo = usageInfoBase\<lparr>plan := (if status = paid then paid else lit ''custom'')\<rparr>\<rparr>,
           data)
        else if status = paid then
          (\<lparr>res_apiKey = None, res_error = Some subscription_active_msg,
            res_requiresUpgrade = Some False, res_usageInfo = usageInfoBase\<rparr>,
           data)
        else if used \<ge> FREE_TIER_LIMIT cfg then
          (\<lparr>res_apiKey = None, res_error = Some (limit_reached_msg (FREE_TIER_LIMIT cfg)),
            res_requiresUpgrade = Some True,
            res_usageInfo = usageInfoBase\<lparr>freeTooltipsRemaining := 0\<rparr>\<rparr>,
           data)
        else if action = summarizeText \<and> DEFAULT_FREE_API_KEY cfg = [] then
          (\<lparr>res_apiKey = None, res_error = Some free_tier_unavailable_msg,
            res_requiresUpgrade = Some True, res_usageInfo = usageInfoBase\<rparr>,
           data)
        else
          (let newUsedCount = used + 1
           in (\<lparr>res_apiKey = (if action = summarizeText then Some (DEFAULT_FREE_API_KEY cfg) else None),
                res_error = None, res_requiresUpgrade = None,
                res_usageInfo = usageInfoBase\<lparr>plan := lit ''free'',
                  freeTooltipsRemaining := max (FREE_TIER_LIMIT cfg - newUsedCount) 0,
                  info_freeTooltipsUsed := newUsedCount\<rparr>\<rparr>,
               data\<lparr>freeTooltipsUsed := Some newUsedCount\<rparr>)))"

text \<open>
  The message a content script sends and the response it receives.  \<open>success\<close> absent is
  falsy, so it is a \<open>bool\<close>.
\<close>

record request_data =
  req_text :: "jsstring option"
  req_imageUrl :: "jsstring option"
  req_apiKey :: "jsstring option"

record message =
  msg_action :: jsstring
  msg_data :: request_data

record response =
  success :: bool
  result :: "jsstring option"
  error :: "jsstring option"
  errorCode :: "jsstring option"
  usageInfo :: "usage_info option"

text \<open>
  What the offscreen document does with a dispatched task is outside the gate:
  \<open>ensureOffscreenReady\<close> throws, or \<open>chrome.runtime.sendMessage\<close> calls back with
  \<open>chrome.runtime.lastError\<close> set (and its message), or with a response (possibly none).
\<close>

datatype channel =
  OffscreenNotReady
| SendFailed "jsstring option"
| Replied "response option"

text \<open>The task handed to the offscreen document: \<open>type\<close> and \<open>data\<close>.\<close>

definition offscreen_task :: "message \<Rightarrow> resolution \<Rightarrow> jsstring \<times> request_data" where
  "offscreen_task m r =
    (let processType = (if msg_action m = summarizeText then lit ''summarize'' else lit ''ocr'');
         requestData = msg_data m
     in (processType,
         if truthy (res_apiKey r) then requestData\<lparr>req_apiKey := res_apiKey r\<rparr> else requestData))"

text \<open>
  \<open>handleRequest(message)\<close> once \<open>storageSyncGet\<close> has delivered \<open>data\<close>; \<open>env\<close> answers
  the dispatched task.
\<close>

definition handleRequest ::
  "config \<Rightarrow> (jsstring \<times> request_data \<Rightarrow> channel) \<Rightarrow> message \<Rightarrow> sync_storage
     \<Rightarrow> response \<times> sync_storage" where
  "handleRequest cfg env m data =
    (let (apiResolution, data') = resolveUsageAndApiKey cfg (msg_action m) data
     in if truthy (res_error apiResolution) then
          (\<lparr>success = False, result = None, error = res_error apiResolution,
            errorCode = Some (if res_requiresUpgrade apiResolution = Some True
                              then lit ''FREE_TIER_EXHAUSTED'' else lit ''API_KEY_REQUIRED''),
            usageInfo = Some (res_usageInfo apiResolution)\<rparr>, data')
        else
          (case env (offscreen_task m apiResolution) of
             OffscreenNotReady \<Rightarrow>
               (\<lparr>success = False, result = None,
                 error = Some (lit ''Background worker unavailable. Try reloading the extension.''),
                 errorCode = Some (lit ''OFFSCREEN_UNAVAILABLE''),
                 usageInfo = Some (res_usageInfo apiResolution)\<rparr>, data')
           | SendFailed lastErrorMessage \<Rightarrow>
               (\<lparr>success = False, result = None,
                 error = Some (or_else lastErrorMessage (lit ''Processor unavailable.'')),
                 errorCode = Some (lit ''OFFSCREEN_UNAVAILABLE''),
                 usageInfo = Some (res_usageInfo apiResolution)\<rparr>, data')
           | Replied resp \<Rightarrow>
               (let payload = (case resp of
                       Some r \<Rightarrow> r
                     | None \<Rightarrow> \<lparr>success = False, result = None,
                         error = Some (lit ''No response from processor.''),
                         errorCode = Some (lit ''NO_PROCESSOR_RESPONSE''), usageInfo = None\<rparr>)
                in (payload\<lparr>usageInfo := Some (res_usageInfo apiResolution)\<rparr>, data'))))"

text \<open>
  The \<open>onMessage\<close> listener for \<open>summarizeText\<close> and \<open>ocrImage\<close>.  \<open>storageSyncGet\<close>
  resolves with whatever \<open>chrome.storage.sync.get\<close> hands its callback.  \<open>readDelivers\<close>
  says whether that is the stored items.  When it is not (the read failed and the
  callback got \<open>undefined\<close>), the property access \<open>data.subscriptionStatus\<close> throws inside
  \<open>resolveUsageAndApiKey\<close>, \<open>handleRequest\<close> rejects with the error whose message is
  \<open>thrown\<close>, and the listener's \<open>catch\<close> answers.  \<open>None\<close> is returned for the actions
  this branch does not handle.
\<close>

definition onMessage ::
  "config \<Rightarrow> (jsstring \<times> request_data \<Rightarrow> channel) \<Rightarrow> jsstring option \<Rightarrow> bool \<Rightarrow> message
     \<Rightarrow> sync_storage \<Rightarrow> response option \<times> sync_storage" where
  "onMessage cfg env thrown readDelivers m st =
    (if msg_action m = summarizeText \<or> msg_action m = ocrImage then
       (if readDelivers then
          (let (r, st') = handleRequest cfg env m st in (Some r, st'))
        else
          (Some \<lparr>success = False, result = None,
             error = Some (or_else thrown (lit ''Unexpected error occurred.'')),
             errorCode = Some (lit ''UNEXPECTED_ERROR''), usageInfo = None\<rparr>, st))
     else (None, st))"

text \<open>A series of requests, each one seeing the storage the previous one left.\<close>

fun handle_all ::
  "config \<Rightarrow> (jsstring \<times> request_data \<Rightarrow> channel) \<Rightarrow> message list \<Rightarrow> sync_storage
     \<Rightarrow> response list \<times> sync_storage" where
  "handle_all cfg env [] st = ([], st)"
| "handle_all cfg env (m # ms) st =
    (let (r, st') = handleRequest cfg env m st;
         (rs, st'') = handle_all cfg env ms st'
     in (r # rs, st''))"

section \<open>The popup (popup.js)\<close>

text \<open>
  The click handler of the save button: \<open>entered\<close> is \<open>apiKeyInput.value\<close>.
\<close>

definition saveButton_click :: "jsstring \<Rightarrow> sync_storage \<Rightarrow> sync_storage" where
  "saveButton_click entered st =
    (let apiKey = trim entered
     in if apiKey \<noteq> [] then st\<lparr>llmApiKey := Some apiKey, subscriptionStatus := Some (lit ''custom'')\<rparr>
        else st)"

text \<open>
  \<open>startGoogleUpgrade\<close> and the callback of \<open>launchWebAuthFlow\<close>: \<open>clientId\<close> is
  \<open>GOOGLE_OAUTH_CLIENT_ID\<close>, \<open>lastError\<close> says whether \<open>chrome.runtime.lastError\<close> is set
  in the callback, \<open>redirectUrl\<close> is the callback's argument.
\<close>

definition startGoogleUpgrade ::
  "jsstring \<Rightarrow> bool \<Rightarrow> jsstring option \<Rightarrow> sync_storage \<Rightarrow> sync_storage" where
  "startGoogleUpgrade clientId lastError redirectUrl st =
    (if clientId = [] then st
     else if lastError then st
     else if \<not> truthy redirectUrl \<or> \<not> includes_str (or_else redirectUrl []) (lit ''access_token='') then st
     else st\<lparr>subscriptionStatus := Some paid\<rparr>)"

text \<open>An offscreen document that never answers, for running the gate on examples.\<close>

definition silent_offscreen :: "jsstring \<times> request_data \<Rightarrow> channel" where
  "silent_offscreen task = Replied None"

section \<open>The result caches (content.ts)\<close>

text \<open>
  Both caches live in \<open>chrome.storage.local\<close>, one object per key.  \<open>Date.now()\<close> is an
  integer number of milliseconds.
\<close>

datatype cache_entry =
  SummaryCacheEntry jsstring (timestamp: int)
| PreviewCacheEntry jsstring (timestamp: int)

type_synonym local_storage = "jsstring \<rightharpoonup> cache_entry"

definition PREVIEW_CACHE_DURATION_MS :: int where
  "PREVIEW_CACHE_DURATION_MS = 5 * 60 * 1000"

definition SUMMARY_CACHE_DURATION_MS :: int where
  "SUMMARY_CACHE_DURATION_MS = 10 * 60 * 1000"

text \<open>
  An entry is \<open>{ summary, timestamp }\<close> or \<open>{ dataUrl, timestamp }\<close>.  \<open>entry.summary\<close> and
  \<open>entry.dataUrl\<close> are \<open>undefined\<close> on an object of the other shape.
\<close>

definition entry_summary :: "cache_entry \<Rightarrow> jsstring option" where
  "entry_summary e = (case e of SummaryCacheEntry s t \<Rightarrow> Some s | PreviewCacheEntry d t \<Rightarrow> None)"

definition entry_dataUrl :: "cache_entry \<Rightarrow> jsstring option" where
  "entry_dataUrl e = (case e of SummaryCacheEntry s t \<Rightarrow> None | PreviewCacheEntry d t \<Rightarrow> Some d)"

text \<open>
  The promise of \<open>getCachedSummary\<close>: \<open>Inl\<close> is a rejection with the message of
  \<open>chrome.runtime.lastError\<close> (\<open>lastError\<close>, \<open>None\<close> when it is not set), \<open>Inr None\<close> is
  \<open>null\<close>.  \<open>now\<close> is \<open>Date.now()\<close> inside the callback.  The second component is the
  storage after \<open>chrome.storage.local.remove\<close>.
\<close>

definition getCachedSummary ::
  "jsstring option \<Rightarrow> int \<Rightarrow> jsstring \<Rightarrow> local_storage
     \<Rightarrow> (jsstring + jsstring option) \<times> local_storage" where
  "getCachedSummary lastError now summaryKey store =
    (case lastError of
       Some msg \<Rightarrow> (Inl msg, store)
     | None \<Rightarrow>
        (case store summaryKey of
           None \<Rightarrow> (Inr None, store)
         | Some entry \<Rightarrow>
             (let isExpired = (now - timestamp entry > SUMMARY_CACHE_DURATION_MS)
              in if isExpired then (Inr None, store(summaryKey := None))
                 else (Inr (entry_summary entry), store))))"

definition cacheSummary ::
  "jsstring option \<Rightarrow> int \<Rightarrow> jsstring \<Rightarrow> jsstring \<Rightarrow> local_storage
     \<Rightarrow> (jsstring + unit) \<times> local_storage" where
  "cacheSummary lastError now summaryKey summary store =
    (let entry = SummaryCacheEntry summary now
     in case lastError of
          Some msg \<Rightarrow> (Inl msg, store)
        | None \<Rightarrow> (Inr (), store(summaryKey \<mapsto> entry)))"

definition getCachedPreview ::
  "jsstring option \<Rightarrow> int \<Rightarrow> jsstring \<Rightarrow> local_storage
     \<Rightarrow> (jsstring + jsstring option) \<times> local_storage" where
  "getCachedPreview lastError now previewKey store =
    (case lastError of
       Some msg \<Rightarrow> (Inl msg, store)
     | None \<Rightarrow>
        (case store previewKey of
           None \<Rightarrow> (Inr None, store)
         | Some entry \<Rightarrow>
             (let isExpired = (now - timestamp entry > PREVIEW_CACHE_DURATION_MS)
              in if isExpired then (Inr None, store(previewKey := None))
                 else (Inr (entry_dataUrl entry), store))))"

definition cachePreview ::
  "jsstring option \<Rightarrow> int \<Rightarrow> jsstring \<Rightarrow> jsstring \<Rightarrow> local_storage
     \<Rightarrow> (jsstring + unit) \<times> local_storage" where
  "cachePreview lastError now previewKey dataUrl store =
    (let entry = PreviewCacheEntry dataUrl now
     in case lastError of
          Some msg \<Rightarrow> (Inl msg, store)
        | None \<Rightarrow> (Inr (), store(previewKey \<mapsto> entry)))"

section \<open>Classifying the hovered element (content.ts)\<close>













section \<open>Tooltips and the hover continuations (content.ts)\<close>

definition TOOLTIP_ID :: jsstring where
  "TOOLTIP_ID = lit ''ai-tooltip-summary''"

text \<open>
  The part of the page the content script acts on.  \<open>body\<close> lists, in document order,
  the tooltip elements that are children of \<open>document.body\<close> (every one of them has the
  class \<open>ai-tooltip visible\<close>); \<open>currentTooltip\<close> is the script's variable, holding the
  reference of a tooltip element; \<open>attached\<close> holds the identities of the page's elements
  that \<open>document.body\<close> contains; \<open>mouseout_once\<close> lists the elements carrying a
  once-only \<open>mouseout\<close> listener of \<open>showTooltip\<close>, \<open>auto_hide\<close> the tooltips with a
  pending \<open>AUTO_HIDE_DELAY\<close> timer.  Pixel positions are left out.
\<close>

record tooltip_node =
  ref :: nat
  dom_id :: jsstring
  innerHTML :: jsstring

record page =
  body :: "tooltip_node list"
  currentTooltip :: "nat option"
  next_ref :: nat
  attached :: "nat set"
  mouseout_once :: "nat list"
  auto_hide :: "nat list"

definition removeCurrentTooltip :: "page \<Rightarrow> page" where
  "removeCurrentTooltip pg =
    (case currentTooltip pg of
       Some r \<Rightarrow> pg\<lparr>body := filter (\<lambda>t. ref t \<noteq> r) (body pg), currentTooltip := None\<rparr>
     | None \<Rightarrow> pg)"

text \<open>\<open>document.getElementById\<close> finds the first element with the id.\<close>

fun remove_first_id :: "jsstring \<Rightarrow> tooltip_node list \<Rightarrow> tooltip_node list" where
  "remove_first_id i [] = []"
| "remove_first_id i (t # ts) = (if dom_id t = i then ts else t # remove_first_id i ts)"

definition removeFixedSummaryTooltip :: "page \<Rightarrow> page" where
  "removeFixedSummaryTooltip pg = pg\<lparr>body := remove_first_id TOOLTIP_ID (body pg)\<rparr>"

definition footer_open :: jsstring where
  \<open>footer_open = lit ''<p class="ai-tooltip-footer">Free tooltips left: ''\<close>

definition loading_spinner :: jsstring where
  \<open>loading_spinner = lit '' <span class="loading-spinner"></span>''\<close>

definition loading_line :: jsstring where
  \<open>loading_line = lit ''<p>Loading... <span class="loading-spinner"></span></p>''\<close>

text \<open>
  \<open>buildUsageFooter\<close>: the usage information of a response of the background worker
  has numbers in all its fields, so the \<open>typeof\<close> test only fails when it is absent.
\<close>

definition buildUsageFooter :: "usage_info option \<Rightarrow> jsstring" where
  "buildUsageFooter u =
    (case u of
       None \<Rightarrow> []
     | Some i \<Rightarrow> footer_open @ show_int (freeTooltipsRemaining i) @ lit ''/''
                  @ show_int (freeTierLimit i) @ lit ''</p>'')"

definition escape_char :: "nat \<Rightarrow> jsstring" where
  "escape_char c =
    (if c = 38 then lit ''&amp;''
     else if c = 60 then lit ''&lt;''
     else if c = 62 then lit ''&gt;''
     else if c = 34 then lit ''&quot;''
     else if c = 39 then lit ''&#39;''
     else [c])"

definition escapeHtml :: "jsstring \<Rightarrow> jsstring" where
  "escapeHtml v = concat (map escape_char v)"

definition showTooltip :: "nat \<Rightarrow> jsstring \<Rightarrow> bool \<Rightarrow> page \<Rightarrow> page" where
  "showTooltip elem content isProcessing pg =
    (let pg1 = removeFixedSummaryTooltip (removeCurrentTooltip pg);
         tooltip = \<lparr>ref = next_ref pg1, dom_id = [],
            innerHTML = (if isProcessing then content @ loading_spinner else content)\<rparr>
     in pg1\<lparr>body := body pg1 @ [tooltip],
            currentTooltip := Some (ref tooltip),
            next_ref := next_ref pg1 + 1,
            mouseout_once := mouseout_once pg1 @ [elem],
            auto_hide := (if \<not> isProcessing then auto_hide pg1 @ [ref tooltip] else auto_hide pg1)\<rparr>)"

text \<open>The once-only \<open>mouseout\<close> listeners of an element, and an auto-hide timer firing.\<close>

definition mouseout_element :: "nat \<Rightarrow> page \<Rightarrow> page" where
  "mouseout_element elem pg =
    (if elem \<in> set (mouseout_once pg)
     then (removeCurrentTooltip pg)\<lparr>mouseout_once := filter (\<lambda>e. e \<noteq> elem) (mouseout_once pg)\<rparr>
     else pg)"

definition auto_hide_fire :: "nat \<Rightarrow> page \<Rightarrow> page" where
  "auto_hide_fire tooltip pg =
    (let pg1 = pg\<lparr>auto_hide := remove1 tooltip (auto_hide pg)\<rparr>
     in if currentTooltip pg1 = Some tooltip then removeCurrentTooltip pg1 else pg1)"

definition upgradeHint :: "response \<Rightarrow> jsstring" where
  "upgradeHint r =
    (if errorCode r = Some (lit ''FREE_TIER_EXHAUSTED'')
     then lit ''<p><em>Limit reached. Open the extension popup to upgrade.</em></p>''
     else [])"

text \<open>
  \<open>scheduleImageHover\<close>: the timer callback, and the callback of the \<open>ocrImage\<close>
  message.  \<open>lastError\<close> is \<open>None\<close> when \<open>chrome.runtime.lastError\<close> is not set, otherwise
  its message (\<open>Some None\<close> when it has none); \<open>resp\<close> is the callback's argument.
\<close>

definition scheduleImageHover_fire :: "nat \<Rightarrow> page \<Rightarrow> page" where
  "scheduleImageHover_fire target pg =
     showTooltip target (lit ''<p>Processing Image OCR...</p><p>Loading...</p>'') True pg"

definition scheduleImageHover_response ::
  "nat \<Rightarrow> jsstring option option \<Rightarrow> response option \<Rightarrow> page \<Rightarrow> page" where
  "scheduleImageHover_response target lastError resp pg =
    (case lastError of
       Some msg \<Rightarrow>
         showTooltip target
           (lit ''<p><strong>Error:</strong></p><p>''
              @ (case msg of None \<Rightarrow> lit ''undefined'' | Some m \<Rightarrow> m) @ lit ''</p>'') False pg
     | None \<Rightarrow>
        (let usageFooter = buildUsageFooter (case resp of None \<Rightarrow> None | Some r \<Rightarrow> usageInfo r)
         in case resp of
              None \<Rightarrow>
                showTooltip target
                  (lit ''<p><strong>Error:</strong></p><p>Failed to get response from background worker.</p>''
                     @ usageFooter) False pg
            | Some r \<Rightarrow>
                if success r then
                  showTooltip target
                    (lit ''<p><strong>Image OCR Result:</strong></p><p>''
                       @ (case result r of None \<Rightarrow> [] | Some x \<Rightarrow> x) @ lit ''</p>'' @ usageFooter)
                    False pg
                else if truthy (error r) then
                  showTooltip target
                    (lit ''<p><strong>Error:</strong></p><p>'' @ or_else (error r) [] @ lit ''</p>''
                       @ upgradeHint r @ usageFooter) False pg
                else
                  showTooltip target
                    (lit ''<p><strong>Error:</strong></p><p>Failed to get response from background worker.</p>''
                       @ usageFooter) False pg))"

text \<open>
  \<open>scheduleTextHover\<close>: the timer callback; the continuation after
  \<open>await getCachedSummary(summaryKey)\<close>, given what that promise settled to, which also
  says whether the \<open>summarizeText\<close> message is sent; and the callback of that message.
  \<open>writeError\<close> is \<open>chrome.runtime.lastError\<close> in the callback of the cache write.
\<close>

definition scheduleTextHover_fire :: "nat \<Rightarrow> page \<Rightarrow> page" where
  "scheduleTextHover_fire target pg =
     showTooltip target (lit ''<p>Processing summary...</p><p>Loading...</p>'') True pg"

definition scheduleTextHover_cached ::
  "nat \<Rightarrow> (jsstring + jsstring option) \<Rightarrow> page \<Rightarrow> page \<times> bool" where
  "scheduleTextHover_cached target cacheRead pg =
    (let cached = (case cacheRead of Inl e \<Rightarrow> None | Inr v \<Rightarrow> v)
     in if target \<notin> attached pg then (pg, False)
        else if truthy cached then
          (showTooltip target
             (lit ''<p><strong>Summary:</strong></p><p>'' @ escapeHtml (or_else cached []) @ lit ''</p>'')
             False pg, False)
        else (pg, True))"

definition scheduleTextHover_response ::
  "nat \<Rightarrow> jsstring \<Rightarrow> jsstring option option \<Rightarrow> response option \<Rightarrow> int \<Rightarrow> jsstring option
     \<Rightarrow> page \<times> local_storage \<Rightarrow> page \<times> local_storage" where
  "scheduleTextHover_response target summaryKey lastError resp now writeError st =
    (let (pg, store) = st
     in if target \<notin> attached pg then (pg, store)
        else
          (case lastError of
             Some msg \<Rightarrow>
               (showTooltip target
                  (lit ''<p><strong>Error:</strong></p><p>''
                     @ escapeHtml (or_else msg (lit ''Unknown error occurred.'')) @ lit ''</p>'')
                  False pg, store)
           | None \<Rightarrow>
              (let usageFooter = buildUsageFooter (case resp of None \<Rightarrow> None | Some r \<Rightarrow> usageInfo r)
               in case resp of
                    None \<Rightarrow>
                      (showTooltip target
                         (lit ''<p><strong>Error:</strong></p><p>Failed to get response from background worker.</p>''
                            @ usageFooter) False pg, store)
                  | Some r \<Rightarrow>
                      if success r \<and> truthy (result r) then
                        (showTooltip target
                           (lit ''<p><strong>Summary:</strong></p><p>''
                              @ escapeHtml (or_else (result r) []) @ lit ''</p>'' @ usageFooter)
                           False pg,
                         snd (cacheSummary writeError now summaryKey (or_else (result r) []) store))
                      else if truthy (error r) then
                        (showTooltip target
                           (lit ''<p><strong>Error:</strong></p><p>''
                              @ escapeHtml (or_else (error r) []) @ lit ''</p>''
                              @ upgradeHint r @ usageFooter) False pg, store)
                      else
                        (showTooltip target
                           (lit ''<p><strong>Error:</strong></p><p>Failed to get response from background worker.</p>''
                              @ usageFooter) False pg, store))))"

text \<open>
  The listener of the \<open>showSummaryTooltip\<close> message (the context-menu path): it returns
  the page and the reference of the tooltip it created, if it created one.  Then the
  callback of its \<open>summarizeText\<close> message, and the timer that callback sets.
\<close>

definition showSummaryTooltip :: "jsstring \<Rightarrow> jsstring option \<Rightarrow> page \<Rightarrow> page \<times> nat option" where
  "showSummaryTooltip action txt pg =
    (case txt of
       None \<Rightarrow> (pg, None)
     | Some t \<Rightarrow>
        if action \<noteq> lit ''showSummaryTooltip'' then (pg, None)
        else
          (let preview = take 50 t;
               fixedTooltip = \<lparr>ref = next_ref pg, dom_id = TOOLTIP_ID,
                  innerHTML = lit ''<p>Processing summary for: <strong>'' @ preview
                     @ lit ''...</strong></p>'' @ loading_line\<rparr>
           in (pg\<lparr>body := body pg @ [fixedTooltip], next_ref := next_ref pg + 1\<rparr>,
               Some (ref fixedTooltip))))"

definition set_innerHTML :: "nat \<Rightarrow> jsstring \<Rightarrow> page \<Rightarrow> page" where
  "set_innerHTML r html pg =
     pg\<lparr>body := map (\<lambda>t. if ref t = r then t\<lparr>innerHTML := html\<rparr> else t) (body pg)\<rparr>"

definition showSummaryTooltip_response ::
  "nat \<Rightarrow> jsstring option option \<Rightarrow> response option \<Rightarrow> page \<Rightarrow> page" where
  "showSummaryTooltip_response fixedTooltip lastError resp pg =
    (case lastError of
       Some msg \<Rightarrow>
         set_innerHTML fixedTooltip
           (lit ''<p><strong>Error:</strong></p><p>''
              @ (case msg of None \<Rightarrow> lit ''undefined'' | Some m \<Rightarrow> m) @ lit ''</p>'') pg
     | None \<Rightarrow>
        (let usageFooter = buildUsageFooter (case resp of None \<Rightarrow> None | Some r \<Rightarrow> usageInfo r)
         in case resp of
              None \<Rightarrow>
                set_innerHTML fixedTooltip
                  (lit ''<p><strong>Error:</strong></p><p>Failed to get response from background worker.</p>''
                     @ usageFooter) pg
            | Some r \<Rightarrow>
                if success r then
                  set_innerHTML fixedTooltip
                    (lit ''<p><strong>Summary:</strong></p><p>''
                       @ (case result r of None \<Rightarrow> [] | Some x \<Rightarrow> x) @ lit ''</p>'' @ usageFooter) pg
                else if truthy (error r) then
                  set_innerHTML fixedTooltip
                    (lit ''<p><strong>Error:</strong></p><p>'' @ or_else (error r) [] @ lit ''</p>''
                       @ upgradeHint r @ usageFooter) pg
                else
                  set_innerHTML fixedTooltip
                    (lit ''<p><strong>Error:</strong></p><p>Failed to get response from background worker.</p>''
                       @ usageFooter) pg))"

definition fixedTooltip_remove :: "nat \<Rightarrow> page \<Rightarrow> page" where
  "fixedTooltip_remove fixedTooltip pg = pg\<lparr>body := filter (\<lambda>t. ref t \<noteq> fixedTooltip) (body pg)\<rparr>"

section \<open>Example inputs\<close>







text \<open>A page without tooltips, and a successful answer to an \<open>ocrImage\<close> message.\<close>

definition empty_page :: page where
  "empty_page = \<lparr>body = [], currentTooltip = None, next_ref = 0, attached = {},
     mouseout_once = [], auto_hide = []\<rparr>"

definition ocr_response :: response where
  "ocr_response = \<lparr>success = True, result = Some (lit ''hello''), error = None, errorCode = None,
     usageInfo = Some \<lparr>plan = lit ''free'', freeTierLimit = 100, freeTooltipsRemaining = 99,
       info_freeTooltipsUsed = 1\<rparr>\<rparr>"

section \<open>Facts about the literals\<close>

lemma limit_reached_msg_nonempty: "limit_reached_msg n \<noteq> []"
  by (simp add: limit_reached_msg_def lit_def)

lemma msgs_differ: "free_tier_unavailable_msg \<noteq> limit_reached_msg n"
  by (simp add: limit_reached_msg_def free_tier_unavailable_msg_def lit_def)

lemma free_neq_paid: "lit ''free'' \<noteq> paid"
  by (simp add: paid_def lit_def)

lemma free_tier_unavailable_msg_nonempty: "free_tier_unavailable_msg \<noteq> []"
  by (simp add: free_tier_unavailable_msg_def lit_def)

section \<open>The request gate: free tier, custom credential, paid plan\<close>

text \<open>
  C1, as stated, at an input where it fails: plan free, no custom credential, 99 of 100
  free actions used, and no shared fallback key configured.  The \<open>summarizeText\<close>
  request is refused with the "free tier unavailable" error and the counter stays at 99.
\<close>

theorem C1_counterexample:
  "resolveUsageAndApiKey \<lparr>FREE_TIER_LIMIT = 100, DEFAULT_FREE_API_KEY = []\<rparr> summarizeText
      \<lparr>llmApiKey = None, freeTooltipsUsed = Some 99, subscriptionStatus = Some (lit ''free'')\<rparr>
   = (\<lparr>res_apiKey = None, res_error = Some free_tier_unavailable_msg,
       res_requiresUpgrade = Some True,
       res_usageInfo = \<lparr>plan = lit ''free'', freeTierLimit = 100, freeTooltipsRemaining = 1,
          info_freeTooltipsUsed = 99\<rparr>\<rparr>,
      \<lparr>llmApiKey = None, freeTooltipsUsed = Some 99, subscriptionStatus = Some (lit ''free'')\<rparr>)"
  by (simp add: resolveUsageAndApiKey_def Let_def truthy_def or_else_def summarizeText_def lit_def paid_def)

text \<open>
  C1, amended: while the plan is free, no custom credential is stored and
  \<open>freeTooltipsUsed = FREE_TIER_LIMIT - 1\<close>, a request that is not a summarization, or
  any request when a shared fallback key is configured, proceeds, stores the counter
  \<open>FREE_TIER_LIMIT\<close> and reports \<open>freeTooltipsRemaining = 0\<close>; any request in the state
  so reached is refused with error code \<open>FREE_TIER_EXHAUSTED\<close>, a usage snapshot with
  \<open>freeTooltipsRemaining = 0\<close>, and the storage unchanged.
\<close>

theorem C1_last_free_action:
  assumes "\<not> truthy (llmApiKey st)"
    and "or_else (subscriptionStatus st) (lit ''free'') = lit ''free''"
    and "freeTooltipsUsed st = Some (FREE_TIER_LIMIT cfg - 1)"
    and "action \<noteq> summarizeText \<or> DEFAULT_FREE_API_KEY cfg \<noteq> []"
  shows "resolveUsageAndApiKey cfg action st =
      (\<lparr>res_apiKey = (if action = summarizeText then Some (DEFAULT_FREE_API_KEY cfg) else None),
        res_error = None, res_requiresUpgrade = None,
        res_usageInfo = \<lparr>plan = lit ''free'', freeTierLimit = FREE_TIER_LIMIT cfg,
          freeTooltipsRemaining = 0, info_freeTooltipsUsed = FREE_TIER_LIMIT cfg\<rparr>\<rparr>,
       st\<lparr>freeTooltipsUsed := Some (FREE_TIER_LIMIT cfg)\<rparr>)
    \<and> handleRequest cfg env m (st\<lparr>freeTooltipsUsed := Some (FREE_TIER_LIMIT cfg)\<rparr>) =
      (\<lparr>success = False, result = None,
        error = Some (limit_reached_msg (FREE_TIER_LIMIT cfg)),
        errorCode = Some (lit ''FREE_TIER_EXHAUSTED''),
        usageInfo = Some \<lparr>plan = lit ''free'', freeTierLimit = FREE_TIER_LIMIT cfg,
          freeTooltipsRemaining = 0, info_freeTooltipsUsed = FREE_TIER_LIMIT cfg\<rparr>\<rparr>,
       st\<lparr>freeTooltipsUsed := Some (FREE_TIER_LIMIT cfg)\<rparr>)"
proof
  show "resolveUsageAndApiKey cfg action st =
      (\<lparr>res_apiKey = (if action = summarizeText then Some (DEFAULT_FREE_API_KEY cfg) else None),
        res_error = None, res_requiresUpgrade = None,
        res_usageInfo = \<lparr>plan = lit ''free'', freeTierLimit = FREE_TIER_LIMIT cfg,
          freeTooltipsRemaining = 0, info_freeTooltipsUsed = FREE_TIER_LIMIT cfg\<rparr>\<rparr>,
       st\<lparr>freeTooltipsUsed := Some (FREE_TIER_LIMIT cfg)\<rparr>)"
    using assms by (auto simp add: resolveUsageAndApiKey_def Let_def free_neq_paid)
next
  have "resolveUsageAndApiKey cfg (msg_action m) (st\<lparr>freeTooltipsUsed := Some (FREE_TIER_LIMIT cfg)\<rparr>) =
      (\<lparr>res_apiKey = None, res_error = Some (limit_reached_msg (FREE_TIER_LIMIT cfg)),
        res_requiresUpgrade = Some True,
        res_usageInfo = \<lparr>plan = lit ''free'', freeTierLimit = FREE_TIER_LIMIT cfg,
          freeTooltipsRemaining = 0, info_freeTooltipsUsed = FREE_TIER_LIMIT cfg\<rparr>\<rparr>,
       st\<lparr>freeTooltipsUsed := Some (FREE_TIER_LIMIT cfg)\<rparr>)"
    using assms by (simp add: resolveUsageAndApiKey_def Let_def free_neq_paid)
  then show "handleRequest cfg env m (st\<lparr>freeTooltipsUsed := Some (FREE_TIER_LIMIT cfg)\<rparr>) =
      (\<lparr>success = False, result = None,
        error = Some (limit_reached_msg (FREE_TIER_LIMIT cfg)),
        errorCode = Some (lit ''FREE_TIER_EXHAUSTED''),
        usageInfo = Some \<lparr>plan = lit ''free'', freeTierLimit = FREE_TIER_LIMIT cfg,
          freeTooltipsRemaining = 0, info_freeTooltipsUsed = FREE_TIER_LIMIT cfg\<rparr>\<rparr>,
       st\<lparr>freeTooltipsUsed := Some (FREE_TIER_LIMIT cfg)\<rparr>)"
    by (simp add: handleRequest_def Let_def truthy_def limit_reached_msg_nonempty)
qed

theorem C1_last_free_action_witness:
  "resolveUsageAndApiKey \<lparr>FREE_TIER_LIMIT = 100, DEFAULT_FREE_API_KEY = lit ''sk-shared''\<rparr> summarizeText
      \<lparr>llmApiKey = None, freeTooltipsUsed = Some 99, subscriptionStatus = None\<rparr> =
      (\<lparr>res_apiKey = Some (lit ''sk-shared''), res_error = None, res_requiresUpgrade = None,
        res_usageInfo = \<lparr>plan = lit ''free'', freeTierLimit = 100,
          freeTooltipsRemaining = 0, info_freeTooltipsUsed = 100\<rparr>\<rparr>,
       \<lparr>llmApiKey = None, freeTooltipsUsed = Some 100, subscriptionStatus = None\<rparr>)
    \<and> handleRequest \<lparr>FREE_TIER_LIMIT = 100, DEFAULT_FREE_API_KEY = lit ''sk-shared''\<rparr> silent_offscreen
        \<lparr>msg_action = summarizeText,
          msg_data = \<lparr>req_text = Some (lit ''hello''), req_imageUrl = None, req_apiKey = None\<rparr>\<rparr>
        \<lparr>llmApiKey = None, freeTooltipsUsed = Some 100, subscriptionStatus = None\<rparr> =
      (\<lparr>success = False, result = None, error = Some (limit_reached_msg 100),
        errorCode = Some (lit ''FREE_TIER_EXHAUSTED''),
        usageInfo = Some \<lparr>plan = lit ''free'', freeTierLimit = 100,
          freeTooltipsRemaining = 0, info_freeTooltipsUsed = 100\<rparr>\<rparr>,
       \<lparr>llmApiKey = None, freeTooltipsUsed = Some 100, subscriptionStatus = None\<rparr>)"
  using C1_last_free_action [of "\<lparr>llmApiKey = None, freeTooltipsUsed = Some 99, subscriptionStatus = None\<rparr>"
      "\<lparr>FREE_TIER_LIMIT = 100, DEFAULT_FREE_API_KEY = lit ''sk-shared''\<rparr>" summarizeText silent_offscreen
      "\<lparr>msg_action = summarizeText,
          msg_data = \<lparr>req_text = Some (lit ''hello''), req_imageUrl = None, req_apiKey = None\<rparr>\<rparr>"]
  by (simp add: truthy_def or_else_def lit_def)

text \<open>A stored custom credential: one call, and any series of calls.\<close>

lemma resolve_custom:
  assumes "llmApiKey st = Some k" and "k \<noteq> []"
  shows "resolveUsageAndApiKey cfg action st =
      (\<lparr>res_apiKey = Some k, res_error = None, res_requiresUpgrade = None,
        res_usageInfo = \<lparr>plan = (if or_else (subscriptionStatus st) (lit ''free'') = paid then paid else lit ''custom''),
          freeTierLimit = FREE_TIER_LIMIT cfg,
          freeTooltipsRemaining = max (FREE_TIER_LIMIT cfg - (case freeTooltipsUsed st of Some n \<Rightarrow> n | None \<Rightarrow> 0)) 0,
          info_freeTooltipsUsed = (case freeTooltipsUsed st of Some n \<Rightarrow> n | None \<Rightarrow> 0)\<rparr>\<rparr>,
       st)"
  using assms by (simp add: resolveUsageAndApiKey_def Let_def truthy_def)

lemma handleRequest_snd:
  "snd (handleRequest cfg env m st) = snd (resolveUsageAndApiKey cfg (msg_action m) st)"
  by (simp add: handleRequest_def Let_def split: prod.splits channel.splits)

lemma handle_all_custom:
  assumes "llmApiKey st = Some k" and "k \<noteq> []"
  shows "snd (handle_all cfg env ms st) = st"
proof (induction ms)
  case Nil
  then show ?case by simp
next
  case (Cons m ms)
  have "snd (handleRequest cfg env m st) = st"
    using assms by (simp add: handleRequest_snd resolve_custom)
  with Cons show ?case
    by (auto simp add: Let_def split: prod.splits)
qed

text \<open>
  C2: while a non-empty \<open>llmApiKey\<close> is stored, every call of the gate, whatever the
  action, proceeds with that key (no error, the key in the task handed to the offscreen
  document) and leaves the storage, so also \<open>freeTooltipsUsed\<close>, unchanged; after any
  series of requests the storage is still the same.  Saving a non-blank key in the popup
  stores it, trimmed, with \<open>subscriptionStatus = 'custom'\<close>, and brings about that state.
\<close>

theorem C2_custom_credential_frame:
  assumes "llmApiKey st = Some k" and "k \<noteq> []" and "trim v \<noteq> []"
  shows "res_apiKey (fst (resolveUsageAndApiKey cfg action st)) = Some k
    \<and> res_error (fst (resolveUsageAndApiKey cfg action st)) = None
    \<and> snd (resolveUsageAndApiKey cfg action st) = st
    \<and> req_apiKey (snd (offscreen_task m (fst (resolveUsageAndApiKey cfg (msg_action m) st)))) = Some k
    \<and> snd (handle_all cfg env ms st) = st
    \<and> saveButton_click v st0 = st0\<lparr>llmApiKey := Some (trim v), subscriptionStatus := Some (lit ''custom'')\<rparr>
    \<and> snd (handle_all cfg env ms (saveButton_click v st0)) = saveButton_click v st0"
proof -
  have saved: "saveButton_click v st0 = st0\<lparr>llmApiKey := Some (trim v), subscriptionStatus := Some (lit ''custom'')\<rparr>"
    using assms(3) by (simp add: saveButton_click_def Let_def)
  then have "llmApiKey (saveButton_click v st0) = Some (trim v)"
    by simp
  then have "snd (handle_all cfg env ms (saveButton_click v st0)) = saveButton_click v st0"
    using assms(3) by (rule handle_all_custom)
  with saved show ?thesis
    using assms(1,2)
    by (simp add: resolve_custom handle_all_custom offscreen_task_def Let_def truthy_def)
qed

theorem C2_custom_credential_frame_witness:
  "res_apiKey (fst (resolveUsageAndApiKey \<lparr>FREE_TIER_LIMIT = 100, DEFAULT_FREE_API_KEY = []\<rparr> ocrImage
       \<lparr>llmApiKey = Some (lit ''sk-own''), freeTooltipsUsed = Some 7, subscriptionStatus = Some (lit ''custom'')\<rparr>))
     = Some (lit ''sk-own'')
   \<and> snd (handle_all \<lparr>FREE_TIER_LIMIT = 100, DEFAULT_FREE_API_KEY = []\<rparr> silent_offscreen
       [\<lparr>msg_action = summarizeText,
          msg_data = \<lparr>req_text = Some (lit ''hello''), req_imageUrl = None, req_apiKey = None\<rparr>\<rparr>,
        \<lparr>msg_action = ocrImage,
          msg_data = \<lparr>req_text = None, req_imageUrl = Some (lit ''a.png''), req_apiKey = None\<rparr>\<rparr>]
       \<lparr>llmApiKey = Some (lit ''sk-own''), freeTooltipsUsed = Some 7, subscriptionStatus = Some (lit ''custom'')\<rparr>)
     = \<lparr>llmApiKey = Some (lit ''sk-own''), freeTooltipsUsed = Some 7, subscriptionStatus = Some (lit ''custom'')\<rparr>
   \<and> saveButton_click (lit '' sk-own '')
       \<lparr>llmApiKey = None, freeTooltipsUsed = Some 7, subscriptionStatus = Some (lit ''free'')\<rparr>
     = \<lparr>llmApiKey = Some (lit ''sk-own''), freeTooltipsUsed = Some 7, subscriptionStatus = Some (lit ''custom'')\<rparr>"
  using C2_custom_credential_frame [of
      "\<lparr>llmApiKey = Some (lit ''sk-own''), freeTooltipsUsed = Some 7, subscriptionStatus = Some (lit ''custom'')\<rparr>"
      "lit ''sk-own''" "lit '' sk-own ''" "\<lparr>FREE_TIER_LIMIT = 100, DEFAULT_FREE_API_KEY = []\<rparr>" ocrImage
      "\<lparr>msg_action = summarizeText,
          msg_data = \<lparr>req_text = Some (lit ''hello''), req_imageUrl = None, req_apiKey = None\<rparr>\<rparr>"
      silent_offscreen
      "[\<lparr>msg_action = summarizeText,
          msg_data = \<lparr>req_text = Some (lit ''hello''), req_imageUrl = None, req_apiKey = None\<rparr>\<rparr>,
        \<lparr>msg_action = ocrImage,
          msg_data = \<lparr>req_text = None, req_imageUrl = Some (lit ''a.png''), req_apiKey = None\<rparr>\<rparr>]"
      "\<lparr>llmApiKey = None, freeTooltipsUsed = Some 7, subscriptionStatus = Some (lit ''free'')\<rparr>"]
  by (simp add: trim_def is_space_def lit_def)

text \<open>
  C3: a completed Google sign-in (client id configured, no \<open>lastError\<close>, a redirect URL
  carrying \<open>access_token=\<close>) stores \<open>subscriptionStatus = 'paid'\<close>; while the status is
  paid and no custom credential is stored, every call of the gate is refused with the
  "subscription active" error, \<open>requiresUpgrade = false\<close> and no key, which
  \<open>handleRequest\<close> reports with error code \<open>API_KEY_REQUIRED\<close>, and the storage is
  unchanged.
\<close>

theorem C3_paid_needs_credential:
  assumes "\<not> truthy (llmApiKey st)"
    and "clientId \<noteq> []"
    and "includes_str redirectUrl (lit ''access_token='')"
  shows "startGoogleUpgrade clientId False (Some redirectUrl) st = st\<lparr>subscriptionStatus := Some paid\<rparr>
    \<and> resolveUsageAndApiKey cfg action (st\<lparr>subscriptionStatus := Some paid\<rparr>) =
      (\<lparr>res_apiKey = None, res_error = Some subscription_active_msg,
        res_requiresUpgrade = Some False,
        res_usageInfo = \<lparr>plan = paid, freeTierLimit = FREE_TIER_LIMIT cfg,
          freeTooltipsRemaining = max (FREE_TIER_LIMIT cfg - (case freeTooltipsUsed st of Some n \<Rightarrow> n | None \<Rightarrow> 0)) 0,
          info_freeTooltipsUsed = (case freeTooltipsUsed st of Some n \<Rightarrow> n | None \<Rightarrow> 0)\<rparr>\<rparr>,
       st\<lparr>subscriptionStatus := Some paid\<rparr>)
    \<and> handleRequest cfg env m (st\<lparr>subscriptionStatus := Some paid\<rparr>) =
      (\<lparr>success = False, result = None, error = Some subscription_active_msg,
        errorCode = Some (lit ''API_KEY_REQUIRED''),
        usageInfo = Some \<lparr>plan = paid, freeTierLimit = FREE_TIER_LIMIT cfg,
          freeTooltipsRemaining = max (FREE_TIER_LIMIT cfg - (case freeTooltipsUsed st of Some n \<Rightarrow> n | None \<Rightarrow> 0)) 0,
          info_freeTooltipsUsed = (case freeTooltipsUsed st of Some n \<Rightarrow> n | None \<Rightarrow> 0)\<rparr>\<rparr>,
       st\<lparr>subscriptionStatus := Some paid\<rparr>)"
proof -
  have nonempty: "redirectUrl \<noteq> []"
    using assms(3) by (cases redirectUrl) (simp_all add: lit_def)
  have paid_ne: "paid \<noteq> []"
    by (simp add: paid_def lit_def)
  have msg_ne: "subscription_active_msg \<noteq> []"
    by (simp add: subscription_active_msg_def lit_def)
  have up: "startGoogleUpgrade clientId False (Some redirectUrl) st = st\<lparr>subscriptionStatus := Some paid\<rparr>"
    using assms nonempty by (simp add: startGoogleUpgrade_def truthy_def or_else_def)
  have res: "resolveUsageAndApiKey cfg a (st\<lparr>subscriptionStatus := Some paid\<rparr>) =
      (\<lparr>res_apiKey = None, res_error = Some subscription_active_msg,
        res_requiresUpgrade = Some False,
        res_usageInfo = \<lparr>plan = paid, freeTierLimit = FREE_TIER_LIMIT cfg,
          freeTooltipsRemaining = max (FREE_TIER_LIMIT cfg - (case freeTooltipsUsed st of Some n \<Rightarrow> n | None \<Rightarrow> 0)) 0,
          info_freeTooltipsUsed = (case freeTooltipsUsed st of Some n \<Rightarrow> n | None \<Rightarrow> 0)\<rparr>\<rparr>,
       st\<lparr>subscriptionStatus := Some paid\<rparr>)" for a
    using assms(1) paid_ne by (simp add: resolveUsageAndApiKey_def Let_def or_else_def)
  have hr: "handleRequest cfg env m (st\<lparr>subscriptionStatus := Some paid\<rparr>) =
      (\<lparr>success = False, result = None, error = Some subscription_active_msg,
        errorCode = Some (lit ''API_KEY_REQUIRED''),
        usageInfo = Some \<lparr>plan = paid, freeTierLimit = FREE_TIER_LIMIT cfg,
          freeTooltipsRemaining = max (FREE_TIER_LIMIT cfg - (case freeTooltipsUsed st of Some n \<Rightarrow> n | None \<Rightarrow> 0)) 0,
          info_freeTooltipsUsed = (case freeTooltipsUsed st of Some n \<Rightarrow> n | None \<Rightarrow> 0)\<rparr>\<rparr>,
       st\<lparr>subscriptionStatus := Some paid\<rparr>)"
    using msg_ne by (simp add: handleRequest_def res truthy_def)
  from up res hr show ?thesis by simp
qed

theorem C3_paid_needs_credential_witness:
  "handleRequest \<lparr>FREE_TIER_LIMIT = 100, DEFAULT_FREE_API_KEY = lit ''sk-shared''\<rparr> silent_offscreen
      \<lparr>msg_action = summarizeText,
        msg_data = \<lparr>req_text = Some (lit ''hello''), req_imageUrl = None, req_apiKey = None\<rparr>\<rparr>
      (startGoogleUpgrade (lit ''client-1'') False (Some (lit ''https://x.chromiumapp.org/#access_token=abc''))
        \<lparr>llmApiKey = None, freeTooltipsUsed = Some 3, subscriptionStatus = Some (lit ''free'')\<rparr>) =
    (\<lparr>success = False, result = None, error = Some subscription_active_msg,
      errorCode = Some (lit ''API_KEY_REQUIRED''),
      usageInfo = Some \<lparr>plan = paid, freeTierLimit = 100, freeTooltipsRemaining = 97,
        info_freeTooltipsUsed = 3\<rparr>\<rparr>,
     \<lparr>llmApiKey = None, freeTooltipsUsed = Some 3, subscriptionStatus = Some paid\<rparr>)"
  using C3_paid_needs_credential [of
      "\<lparr>llmApiKey = None, freeTooltipsUsed = Some 3, subscriptionStatus = Some (lit ''free'')\<rparr>"
      "lit ''client-1''" "lit ''https://x.chromiumapp.org/#access_token=abc''"
      "\<lparr>FREE_TIER_LIMIT = 100, DEFAULT_FREE_API_KEY = lit ''sk-shared''\<rparr>" summarizeText silent_offscreen
      "\<lparr>msg_action = summarizeText,
        msg_data = \<lparr>req_text = Some (lit ''hello''), req_imageUrl = None, req_apiKey = None\<rparr>\<rparr>"]
  by (simp add: truthy_def lit_def)

text \<open>
  C4, as stated, at an input where it fails: with no shared fallback key, a
  \<open>summarizeText\<close> request below the ceiling (3 of 100 used) is answered with the same
  error code, \<open>FREE_TIER_EXHAUSTED\<close>, as a request at the ceiling (100 of 100 used).
\<close>

theorem C4_counterexample:
  "errorCode (fst (handleRequest \<lparr>FREE_TIER_LIMIT = 100, DEFAULT_FREE_API_KEY = []\<rparr> silent_offscreen
      \<lparr>msg_action = summarizeText,
        msg_data = \<lparr>req_text = Some (lit ''hello''), req_imageUrl = None, req_apiKey = None\<rparr>\<rparr>
      \<lparr>llmApiKey = None, freeTooltipsUsed = Some 3, subscriptionStatus = Some (lit ''free'')\<rparr>))
    = Some (lit ''FREE_TIER_EXHAUSTED'')
   \<and> errorCode (fst (handleRequest \<lparr>FREE_TIER_LIMIT = 100, DEFAULT_FREE_API_KEY = []\<rparr> silent_offscreen
      \<lparr>msg_action = summarizeText,
        msg_data = \<lparr>req_text = Some (lit ''hello''), req_imageUrl = None, req_apiKey = None\<rparr>\<rparr>
      \<lparr>llmApiKey = None, freeTooltipsUsed = Some 100, subscriptionStatus = Some (lit ''free'')\<rparr>))
    = Some (lit ''FREE_TIER_EXHAUSTED'')"
  by (simp add: handleRequest_def resolveUsageAndApiKey_def Let_def truthy_def or_else_def
      limit_reached_msg_nonempty free_tier_unavailable_msg_def paid_def lit_def)

text \<open>
  C4, amended: a \<open>summarizeText\<close> request made while the plan is free, the usage is below
  the ceiling, no custom credential is stored and no shared fallback key is configured
  is refused, the storage unchanged, with an error message of its own ("free tier
  unavailable", different from the message of an exhausted free tier) but with the
  error code \<open>FREE_TIER_EXHAUSTED\<close>, the code of an exhausted free tier.
\<close>

theorem C4_no_fallback_credential:
  assumes "\<not> truthy (llmApiKey st)"
    and "or_else (subscriptionStatus st) (lit ''free'') = lit ''free''"
    and "freeTooltipsUsed st = Some used"
    and "used < FREE_TIER_LIMIT cfg"
    and "DEFAULT_FREE_API_KEY cfg = []"
    and "msg_action m = summarizeText"
  shows "handleRequest cfg env m st =
      (\<lparr>success = False, result = None, error = Some free_tier_unavailable_msg,
        errorCode = Some (lit ''FREE_TIER_EXHAUSTED''),
        usageInfo = Some \<lparr>plan = lit ''free'', freeTierLimit = FREE_TIER_LIMIT cfg,
          freeTooltipsRemaining = FREE_TIER_LIMIT cfg - used, info_freeTooltipsUsed = used\<rparr>\<rparr>,
       st)
    \<and> free_tier_unavailable_msg \<noteq> limit_reached_msg (FREE_TIER_LIMIT cfg)"
proof -
  have "resolveUsageAndApiKey cfg (msg_action m) st =
      (\<lparr>res_apiKey = None, res_error = Some free_tier_unavailable_msg,
        res_requiresUpgrade = Some True,
        res_usageInfo = \<lparr>plan = lit ''free'', freeTierLimit = FREE_TIER_LIMIT cfg,
          freeTooltipsRemaining = FREE_TIER_LIMIT cfg - used, info_freeTooltipsUsed = used\<rparr>\<rparr>,
       st)"
    using assms by (simp add: resolveUsageAndApiKey_def Let_def free_neq_paid)
  then show ?thesis
    by (simp add: handleRequest_def truthy_def msgs_differ free_tier_unavailable_msg_nonempty)
qed

theorem C4_no_fallback_credential_witness:
  "handleRequest \<lparr>FREE_TIER_LIMIT = 100, DEFAULT_FREE_API_KEY = []\<rparr> silent_offscreen
      \<lparr>msg_action = summarizeText,
        msg_data = \<lparr>req_text = Some (lit ''hello''), req_imageUrl = None, req_apiKey = None\<rparr>\<rparr>
      \<lparr>llmApiKey = None, freeTooltipsUsed = Some 3, subscriptionStatus = Some (lit ''free'')\<rparr> =
    (\<lparr>success = False, result = None, error = Some free_tier_unavailable_msg,
      errorCode = Some (lit ''FREE_TIER_EXHAUSTED''),
      usageInfo = Some \<lparr>plan = lit ''free'', freeTierLimit = 100, freeTooltipsRemaining = 97,
        info_freeTooltipsUsed = 3\<rparr>\<rparr>,
     \<lparr>llmApiKey = None, freeTooltipsUsed = Some 3, subscriptionStatus = Some (lit ''free'')\<rparr>)"
  using C4_no_fallback_credential [of
      "\<lparr>llmApiKey = None, freeTooltipsUsed = Some 3, subscriptionStatus = Some (lit ''free'')\<rparr>"
      3 "\<lparr>FREE_TIER_LIMIT = 100, DEFAULT_FREE_API_KEY = []\<rparr>"
      "\<lparr>msg_action = summarizeText,
        msg_data = \<lparr>req_text = Some (lit ''hello''), req_imageUrl = None, req_apiKey = None\<rparr>\<rparr>"
      silent_offscreen]
  by (simp add: truthy_def or_else_def lit_def)

section \<open>The usage snapshot of a response\<close>

lemma handleRequest_usageInfo:
  "usageInfo (fst (handleRequest cfg env m st)) =
     Some (res_usageInfo (fst (resolveUsageAndApiKey cfg (msg_action m) st)))"
  by (simp add: handleRequest_def Let_def split: prod.splits channel.splits option.splits)

lemma resolve_usageInfo_limit:
  "freeTierLimit (res_usageInfo (fst (resolveUsageAndApiKey cfg action st))) = FREE_TIER_LIMIT cfg"
  by (simp add: resolveUsageAndApiKey_def Let_def)

lemma resolve_usageInfo_remaining:
  "0 \<le> freeTooltipsRemaining (res_usageInfo (fst (resolveUsageAndApiKey cfg action st)))"
  by (simp add: resolveUsageAndApiKey_def Let_def)

text \<open>
  C10, as stated, at an input where it fails: the read of \<open>chrome.storage.sync\<close> delivers
  nothing, \<open>handleRequest\<close> rejects, and the response the listener sends from its
  \<open>catch\<close> has no \<open>usageInfo\<close>.
\<close>

theorem C10_counterexample:
  "fst (onMessage \<lparr>FREE_TIER_LIMIT = 100, DEFAULT_FREE_API_KEY = lit ''sk-shared''\<rparr> silent_offscreen
      (Some (lit ''Cannot read properties of undefined'')) False
      \<lparr>msg_action = summarizeText,
        msg_data = \<lparr>req_text = Some (lit ''hello''), req_imageUrl = None, req_apiKey = None\<rparr>\<rparr>
      \<lparr>llmApiKey = None, freeTooltipsUsed = Some 3, subscriptionStatus = Some (lit ''free'')\<rparr>)
   = Some \<lparr>success = False, result = None,
       error = Some (lit ''Cannot read properties of undefined''),
       errorCode = Some (lit ''UNEXPECTED_ERROR''), usageInfo = None\<rparr>"
  by (simp add: onMessage_def summarizeText_def or_else_def lit_def)

text \<open>
  C10, amended: every response that \<open>handleRequest\<close> returns (the gate refused, the
  offscreen document was not ready, the message to it failed, it sent no response, or
  it answered) carries the usage information the gate computed for that request, with
  the configured limit and a remaining count that is not negative.
\<close>

theorem C10_handleRequest_usageInfo:
  "usageInfo (fst (handleRequest cfg env m st)) =
     Some (res_usageInfo (fst (resolveUsageAndApiKey cfg (msg_action m) st)))
   \<and> freeTierLimit (res_usageInfo (fst (resolveUsageAndApiKey cfg (msg_action m) st))) = FREE_TIER_LIMIT cfg
   \<and> 0 \<le> freeTooltipsRemaining (res_usageInfo (fst (resolveUsageAndApiKey cfg (msg_action m) st)))"
  by (simp only: handleRequest_usageInfo resolve_usageInfo_limit resolve_usageInfo_remaining simp_thms)

section \<open>Cache expiry\<close>

lemma summary_fresh:
  "now \<le> t0 + SUMMARY_CACHE_DURATION_MS \<Longrightarrow>
     getCachedSummary None now k (snd (cacheSummary None t0 k v store)) =
       (Inr (Some v), store(k \<mapsto> SummaryCacheEntry v t0))"
  by (simp add: getCachedSummary_def cacheSummary_def entry_summary_def Let_def)

lemma summary_expired:
  "t0 + SUMMARY_CACHE_DURATION_MS < now \<Longrightarrow>
     getCachedSummary None now k (snd (cacheSummary None t0 k v store)) =
       (Inr None, store(k := None))"
  by (simp add: getCachedSummary_def cacheSummary_def Let_def)

lemma summary_gone:
  "getCachedSummary None now k (store(k := None)) = (Inr None, store(k := None))"
  by (simp add: getCachedSummary_def)

lemma preview_fresh:
  "now \<le> t0 + PREVIEW_CACHE_DURATION_MS \<Longrightarrow>
     getCachedPreview None now k (snd (cachePreview None t0 k v store)) =
       (Inr (Some v), store(k \<mapsto> PreviewCacheEntry v t0))"
  by (simp add: getCachedPreview_def cachePreview_def entry_dataUrl_def Let_def)

lemma preview_expired:
  "t0 + PREVIEW_CACHE_DURATION_MS < now \<Longrightarrow>
     getCachedPreview None now k (snd (cachePreview None t0 k v store)) =
       (Inr None, store(k := None))"
  by (simp add: getCachedPreview_def cachePreview_def Let_def)

lemma preview_gone:
  "getCachedPreview None now k (store(k := None)) = (Inr None, store(k := None))"
  by (simp add: getCachedPreview_def)

text \<open>
  C7: in both caches (summaries, 10 minutes; previews, 5 minutes), with the storage
  answering without error, an entry stored at \<open>t0\<close> and read at a time strictly after
  \<open>t0\<close> plus the duration gives \<open>null\<close> and is removed, so that a read of the key after
  that gives \<open>null\<close> again and finds no entry; read at a time up to \<open>t0\<close> plus the
  duration it gives the stored value and leaves the storage as it was.
\<close>

theorem C7_cache_expiry:
  assumes "t0 + SUMMARY_CACHE_DURATION_MS < late" and "early \<le> t0 + SUMMARY_CACHE_DURATION_MS"
    and "p0 + PREVIEW_CACHE_DURATION_MS < plate" and "pearly \<le> p0 + PREVIEW_CACHE_DURATION_MS"
  shows "SUMMARY_CACHE_DURATION_MS = 600000 \<and> PREVIEW_CACHE_DURATION_MS = 300000
    \<and> getCachedSummary None late k (snd (cacheSummary None t0 k v store)) = (Inr None, store(k := None))
    \<and> getCachedSummary None again k (store(k := None)) = (Inr None, store(k := None))
    \<and> k \<notin> dom (store(k := None))
    \<and> getCachedSummary None early k (snd (cacheSummary None t0 k v store)) =
         (Inr (Some v), snd (cacheSummary None t0 k v store))
    \<and> getCachedPreview None plate k (snd (cachePreview None p0 k v store)) = (Inr None, store(k := None))
    \<and> getCachedPreview None again k (store(k := None)) = (Inr None, store(k := None))
    \<and> getCachedPreview None pearly k (snd (cachePreview None p0 k v store)) =
         (Inr (Some v), snd (cachePreview None p0 k v store))"
proof -
  have s: "snd (cacheSummary None t0 k v store) = store(k \<mapsto> SummaryCacheEntry v t0)"
    by (simp add: cacheSummary_def)
  have p: "snd (cachePreview None p0 k v store) = store(k \<mapsto> PreviewCacheEntry v p0)"
    by (simp add: cachePreview_def)
  show ?thesis
    using assms summary_fresh [of early t0 k v store] summary_expired [of t0 late k v store]
      preview_fresh [of pearly p0 k v store] preview_expired [of p0 plate k v store]
    by (simp add: s p summary_gone preview_gone SUMMARY_CACHE_DURATION_MS_def PREVIEW_CACHE_DURATION_MS_def)
qed

theorem C7_cache_expiry_witness:
  "getCachedSummary None 600001 (lit ''summary::k'') (snd (cacheSummary None 0 (lit ''summary::k'') (lit ''v'') Map.empty))
      = (Inr None, Map.empty)
   \<and> getCachedSummary None 600000 (lit ''summary::k'') (snd (cacheSummary None 0 (lit ''summary::k'') (lit ''v'') Map.empty))
      = (Inr (Some (lit ''v'')), [lit ''summary::k'' \<mapsto> SummaryCacheEntry (lit ''v'') 0])
   \<and> getCachedPreview None 300001 (lit ''summary::k'') (snd (cachePreview None 0 (lit ''summary::k'') (lit ''v'') Map.empty))
      = (Inr None, Map.empty)
   \<and> getCachedPreview None 300000 (lit ''summary::k'') (snd (cachePreview None 0 (lit ''summary::k'') (lit ''v'') Map.empty))
      = (Inr (Some (lit ''v'')), [lit ''summary::k'' \<mapsto> PreviewCacheEntry (lit ''v'') 0])"
  using C7_cache_expiry [of 0 600001 600000 0 300001 300000 "lit ''summary::k''" "lit ''v''" Map.empty 0]
  by (simp add: cacheSummary_def cachePreview_def SUMMARY_CACHE_DURATION_MS_def PREVIEW_CACHE_DURATION_MS_def)

section \<open>Classification\<close>














section \<open>Rendering after the target left the document\<close>

lemma showTooltip_body:
  "body (showTooltip elem content isProcessing pg) =
     remove_first_id TOOLTIP_ID (body (removeCurrentTooltip pg))
       @ [\<lparr>ref = next_ref pg, dom_id = [],
            innerHTML = (if isProcessing then content @ loading_spinner else content)\<rparr>]"
  by (simp add: showTooltip_def removeFixedSummaryTooltip_def removeCurrentTooltip_def Let_def
      split: option.splits)

lemma image_response_renders:
  "\<exists>html. body (scheduleImageHover_response target lastError resp pg) =
     remove_first_id TOOLTIP_ID (body (removeCurrentTooltip pg))
       @ [\<lparr>ref = next_ref pg, dom_id = [], innerHTML = html\<rparr>]"
  by (simp add: scheduleImageHover_response_def showTooltip_body Let_def
      split: option.splits)

lemma text_cached_detached:
  "target \<notin> attached pg \<Longrightarrow> scheduleTextHover_cached target cacheRead pg = (pg, False)"
  by (simp add: scheduleTextHover_cached_def Let_def)

lemma text_response_detached:
  "target \<notin> attached pg \<Longrightarrow>
     scheduleTextHover_response target summaryKey lastError resp now writeError (pg, store) = (pg, store)"
  by (simp add: scheduleTextHover_response_def)

text \<open>
  C8 at the input where the code departs from it: the image under the pointer is
  removed from the document after the timer fired, then the answer to \<open>ocrImage\<close>
  arrives.  \<open>scheduleImageHover\<close> renders the result tooltip all the same; the same
  events in \<open>scheduleTextHover\<close> change nothing.
\<close>

theorem C8_image_response_detached:
  "7 \<notin> attached ((scheduleImageHover_fire 7 (empty_page\<lparr>attached := {7}\<rparr>))\<lparr>attached := {}\<rparr>)
   \<and> body (scheduleImageHover_response 7 None (Some ocr_response)
        ((scheduleImageHover_fire 7 (empty_page\<lparr>attached := {7}\<rparr>))\<lparr>attached := {}\<rparr>)) =
     [\<lparr>ref = 1, dom_id = [],
        innerHTML = lit ''<p><strong>Image OCR Result:</strong></p><p>hello</p>''
          @ buildUsageFooter (usageInfo ocr_response)\<rparr>]
   \<and> scheduleTextHover_response 7 (lit ''summary::k'') None (Some ocr_response) 0 None
        ((scheduleTextHover_fire 7 (empty_page\<lparr>attached := {7}\<rparr>))\<lparr>attached := {}\<rparr>, Map.empty) =
     ((scheduleTextHover_fire 7 (empty_page\<lparr>attached := {7}\<rparr>))\<lparr>attached := {}\<rparr>, Map.empty)"
  by (simp add: scheduleImageHover_response_def scheduleImageHover_fire_def scheduleTextHover_fire_def
      scheduleTextHover_response_def
      showTooltip_def removeFixedSummaryTooltip_def removeCurrentTooltip_def empty_page_def
      ocr_response_def Let_def lit_def)

section \<open>Tooltips on the page\<close>

text \<open>
  C9 at the inputs where the code departs from it: a hover tooltip is on the page and
  the \<open>showSummaryTooltip\<close> message arrives; or that message arrives twice.  In both
  cases two tooltips are on the page.
\<close>

theorem C9_two_tooltips:
  "map ref (body (fst (showSummaryTooltip (lit ''showSummaryTooltip'') (Some (lit ''selected text''))
      (showTooltip 7 (lit ''<p><strong>Summary:</strong></p><p>hello</p>'') False
        (empty_page\<lparr>attached := {7}\<rparr>))))) = [0, 1]
   \<and> map ref (body (fst (showSummaryTooltip (lit ''showSummaryTooltip'') (Some (lit ''second selection''))
      (fst (showSummaryTooltip (lit ''showSummaryTooltip'') (Some (lit ''selected text''))
        empty_page))))) = [0, 1]"
  by (simp add: showSummaryTooltip_def showTooltip_def removeFixedSummaryTooltip_def
      removeCurrentTooltip_def empty_page_def Let_def lit_def)

end
